theory Spec2Isabelle
  imports Main "HOL-Library.Sublist"
begin

section \<open>Strings of the record manager\<close>

text \<open>
  The TypeScript strings of \<^verbatim>\<open>App.tsx\<close> are modelled as \<^typ>\<open>string\<close>: one
  \<^typ>\<open>char\<close> per code unit, for code units below 256 (ASCII and Latin-1). On that
  range \<^verbatim>\<open>String.prototype.toLowerCase\<close> maps code unit by code unit:
  \<^verbatim>\<open>A..Z\<close>, \<^verbatim>\<open>U+00C0..U+00D6\<close> and \<^verbatim>\<open>U+00D8..U+00DE\<close> move up by 32, the rest stays.
  \<^verbatim>\<open>String.prototype.trim\<close> strips the white space and line terminators of
  ECMAScript; below 256 these are the code units 9 to 13, 32 and 160.
\<close>

definition toLowerCase_char :: "char \<Rightarrow> char" where
  "toLowerCase_char c =
     (let n = (of_char c :: nat)
      in if (65 \<le> n \<and> n \<le> 90) \<or> (192 \<le> n \<and> n \<le> 214) \<or> (216 \<le> n \<and> n \<le> 222)
         then char_of (n + 32) else c)"

definition toLowerCase :: "string \<Rightarrow> string" where
  "toLowerCase s = map toLowerCase_char s"

definition isWhiteSpace :: "char \<Rightarrow> bool" where
  "isWhiteSpace c =
     (let n = (of_char c :: nat) in (9 \<le> n \<and> n \<le> 13) \<or> n = 32 \<or> n = 160)"

definition trim :: "string \<Rightarrow> string" where
  "trim s = rev (dropWhile isWhiteSpace (rev (dropWhile isWhiteSpace s)))"

text \<open>
  \<^verbatim>\<open>haystack.includes(needle)\<close>: the needle is looked for at every position of the
  haystack, from the left.
\<close>

fun str_includes :: "string \<Rightarrow> string \<Rightarrow> bool" where
  "str_includes [] needle = (needle = [])"
| "str_includes (c # cs) needle = (prefix needle (c # cs) \<or> str_includes cs needle)"

text \<open>The truthiness of a JavaScript string: every string but the empty one.\<close>

definition truthy :: "string \<Rightarrow> bool" where
  "truthy s = (s \<noteq> [])"

section \<open>Data model\<close>

text \<open>
  \<^verbatim>\<open>interface Record\<close> and \<^verbatim>\<open>RecordFormData = Omit<Record, 'id' | 'createdAt' | 'updatedAt'>\<close>.
  The form fields come first, the two dates extend them to the payload that
  \<^verbatim>\<open>handleSubmit\<close> writes, and the identifier extends that to a record.
  The union \<^verbatim>\<open>'Active' | 'Inactive'\<close> is erased when the program runs, so a status is the
  string it is at run time. A \<^verbatim>\<open>Date\<close> is its number of milliseconds since the epoch.
\<close>

type_synonym Date = int

record RecordFormData =
  name :: string
  singular :: string
  plural :: string
  status :: string

record RecordData = RecordFormData +
  createdAt :: Date
  updatedAt :: Date

record Record = RecordData +
  rid :: string

record AppState =
  records :: "Record list"
  searchQuery :: string
  statusFilter :: string
  showModal :: bool
  editingRecord :: "Record option"
  selectedRecord :: "Record option"
  formData :: RecordFormData

section \<open>Filter and search\<close>

text \<open>\<^verbatim>\<open>filteredRecords\<close>, lines 56 to 65 of \<^verbatim>\<open>App.tsx\<close>.\<close>

definition matchesSearch :: "string \<Rightarrow> Record \<Rightarrow> bool" where
  "matchesSearch q record =
     (\<not> truthy (trim q) \<or>
      str_includes (toLowerCase (name record)) (toLowerCase q) \<or>
      str_includes (toLowerCase (singular record)) (toLowerCase q) \<or>
      str_includes (toLowerCase (plural record)) (toLowerCase q))"

definition matchesStatus :: "string \<Rightarrow> Record \<Rightarrow> bool" where
  "matchesStatus sf record = (sf = ''All'' \<or> status record = sf)"

definition filteredRecords :: "Record list \<Rightarrow> string \<Rightarrow> string \<Rightarrow> Record list" where
  "filteredRecords rs q sf =
     filter (\<lambda>record. matchesSearch q record \<and> matchesStatus sf record) rs"

section \<open>Record store client\<close>

text \<open>
  A document of the \<^verbatim>\<open>records\<close> collection as a snapshot delivers it: the fields of
  the backend's contract (strings, and timestamps read through \<^verbatim>\<open>toDate()\<close>), each of
  which can be missing; \<^const>\<open>None\<close> is the missing (\<^verbatim>\<open>undefined\<close> or \<^verbatim>\<open>null\<close>) field.
\<close>

record DocumentData =
  d_name :: "string option"
  d_singular :: "string option"
  d_plural :: "string option"
  d_status :: "string option"
  d_createdAt :: "Date option"
  d_updatedAt :: "Date option"

record QueryDocumentSnapshot =
  doc_id :: string
  doc_data :: DocumentData

text \<open>\<^verbatim>\<open>value || fallback\<close> on a string field: the fallback replaces a missing or empty string.\<close>

definition or_string :: "string option \<Rightarrow> string \<Rightarrow> string" where
  "or_string v fallback =
     (case v of None \<Rightarrow> fallback | Some s \<Rightarrow> if truthy s then s else fallback)"

text \<open>
  Every \<^verbatim>\<open>new Date()\<close> reads the clock. The clock is the sequence of its readings and
  the callback counts the readings it has taken; \<^verbatim>\<open>timestamp?.toDate() || new Date()\<close>
  reads it only when the timestamp is missing (a \<^verbatim>\<open>Date\<close> object is always truthy).
\<close>

type_synonym Clock = "nat \<Rightarrow> Date"

definition or_now :: "Clock \<Rightarrow> nat \<Rightarrow> Date option \<Rightarrow> Date \<times> nat" where
  "or_now clock k v = (case v of Some t \<Rightarrow> (t, k) | None \<Rightarrow> (clock k, Suc k))"

text \<open>The body of \<^verbatim>\<open>snapshot.forEach\<close>, lines 38 to 49: one document, one record.\<close>

definition decodeDoc :: "Clock \<Rightarrow> nat \<Rightarrow> QueryDocumentSnapshot \<Rightarrow> Record \<times> nat" where
  "decodeDoc clock k doc =
     (let data = doc_data doc;
          (c, k1) = or_now clock k (d_createdAt data);
          (u, k2) = or_now clock k1 (d_updatedAt data)
      in (\<lparr>name = or_string (d_name data) [],
           singular = or_string (d_singular data) [],
           plural = or_string (d_plural data) [],
           status = or_string (d_status data) ''Active'',
           createdAt = c,
           updatedAt = u,
           rid = doc_id doc\<rparr>, k2))"

fun recordsData :: "Clock \<Rightarrow> nat \<Rightarrow> QueryDocumentSnapshot list \<Rightarrow> Record list" where
  "recordsData clock k [] = []"
| "recordsData clock k (doc # docs) =
     (case decodeDoc clock k doc of (r, k') \<Rightarrow> r # recordsData clock k' docs)"

text \<open>The \<^verbatim>\<open>onSnapshot\<close> callback: the decoded snapshot replaces the whole record list.\<close>

definition onSnapshot :: "Clock \<Rightarrow> QueryDocumentSnapshot list \<Rightarrow> AppState \<Rightarrow> AppState" where
  "onSnapshot clock snapshot st = st\<lparr>records := recordsData clock 0 snapshot\<rparr>"

section \<open>Edit form controller\<close>

text \<open>
  What a handler does besides updating the state: the write it sends to the backend,
  the toasts it shows and what it logs on the console, in the order of the calls.
  The backend is the function that tells whether the promise of a write resolves
  (\<^const>\<open>True\<close>) or rejects.
\<close>

datatype backend_write =
  UpdateDoc string RecordData
| AddDoc RecordData
| DeleteDoc string

datatype effect =
  Write backend_write
| ToastError string
| ToastSuccess string
| ConsoleError string

type_synonym Backend = "backend_write \<Rightarrow> bool"

definition resetForm :: "AppState \<Rightarrow> AppState" where
  "resetForm st =
     st\<lparr>formData := \<lparr>name = [], singular = [], plural = [], status = ''Active''\<rparr>,
        editingRecord := None\<rparr>"

definition validateForm :: "AppState \<Rightarrow> bool \<times> effect list" where
  "validateForm st =
     (if \<not> truthy (trim (name (formData st)))
      then (False, [ToastError ''Name is required''])
      else (True, []))"

text \<open>The constant \<^verbatim>\<open>recordData\<close> of \<^verbatim>\<open>handleSubmit\<close>, lines 100 to 104.\<close>

definition recordData :: "Date \<Rightarrow> AppState \<Rightarrow> RecordData" where
  "recordData now st =
     \<lparr>name = name (formData st),
      singular = singular (formData st),
      plural = plural (formData st),
      status = status (formData st),
      createdAt = (case editingRecord st of Some er \<Rightarrow> createdAt er | None \<Rightarrow> now),
      updatedAt = now\<rparr>"

text \<open>
  \<^verbatim>\<open>handleSubmit\<close>, lines 93 to 125. \<^verbatim>\<open>now\<close> is the one reading of the clock taken
  inside the \<^verbatim>\<open>try\<close> block. A rejected write jumps to the \<^verbatim>\<open>catch\<close> block, past
  \<^verbatim>\<open>setShowModal(false)\<close> and \<^verbatim>\<open>resetForm()\<close>.
\<close>

definition handleSubmit :: "Backend \<Rightarrow> Date \<Rightarrow> AppState \<Rightarrow> AppState \<times> effect list" where
  "handleSubmit backend now st =
     (case validateForm st of
        (False, shown) \<Rightarrow> (st, shown)
      | (True, shown) \<Rightarrow>
          (case editingRecord st of
             Some er \<Rightarrow>
               (let w = UpdateDoc (rid er) (recordData now st)
                in if backend w
                   then (resetForm (st\<lparr>showModal := False\<rparr>),
                         shown @ [Write w, ToastSuccess ''Record updated successfully''])
                   else (st, shown @ [Write w, ConsoleError ''Error saving record:'',
                                      ToastError ''Error saving record. Please try again.'']))
           | None \<Rightarrow>
               (let w = AddDoc ((recordData now st)\<lparr>createdAt := now\<rparr>)
                in if backend w
                   then (resetForm (st\<lparr>showModal := False\<rparr>),
                         shown @ [Write w, ToastSuccess ''Record created successfully''])
                   else (st, shown @ [Write w, ConsoleError ''Error saving record:'',
                                      ToastError ''Error saving record. Please try again.'']))))"

text \<open>
  \<^verbatim>\<open>handleDelete\<close> of the variant that enables deletion; \<^verbatim>\<open>confirmed\<close> is the answer
  to \<^verbatim>\<open>window.confirm\<close>.
\<close>

definition handleDelete :: "Backend \<Rightarrow> bool \<Rightarrow> string \<Rightarrow> AppState \<Rightarrow> AppState \<times> effect list" where
  "handleDelete backend confirmed i st =
     (if confirmed
      then (let w = DeleteDoc i
            in if backend w
               then (st, [Write w, ToastSuccess ''Record deleted successfully''])
               else (st, [Write w, ConsoleError ''Error deleting record:'',
                          ToastError ''Error deleting record'']))
      else (st, []))"

section \<open>Selection and navigation\<close>

text \<open>\<^verbatim>\<open>Array.prototype.findIndex\<close>: the index of the first match, or \<open>-1\<close>.\<close>

fun findIndex_from :: "('a \<Rightarrow> bool) \<Rightarrow> 'a list \<Rightarrow> int \<Rightarrow> int" where
  "findIndex_from P [] i = - 1"
| "findIndex_from P (x # xs) i = (if P x then i else findIndex_from P xs (i + 1))"

definition findIndex :: "('a \<Rightarrow> bool) \<Rightarrow> 'a list \<Rightarrow> int" where
  "findIndex P xs = findIndex_from P xs 0"

text \<open>\<^verbatim>\<open>array[i]\<close>: \<^verbatim>\<open>undefined\<close> outside the array.\<close>

definition at_index :: "'a list \<Rightarrow> int \<Rightarrow> 'a option" where
  "at_index xs i = (if 0 \<le> i \<and> i < int (length xs) then Some (xs ! nat i) else None)"

text \<open>The constants of the details modal, lines 296 to 300.\<close>

definition currentIndex :: "Record list \<Rightarrow> Record \<Rightarrow> int" where
  "currentIndex fr sel = findIndex (\<lambda>r. rid r = rid sel) fr"

definition hasPrev :: "Record list \<Rightarrow> Record \<Rightarrow> bool" where
  "hasPrev fr sel = (currentIndex fr sel > 0)"

definition hasNext :: "Record list \<Rightarrow> Record \<Rightarrow> bool" where
  "hasNext fr sel =
     (currentIndex fr sel < int (length fr) - 1 \<and> currentIndex fr sel \<ge> 0)"

definition recordNum :: "Record list \<Rightarrow> Record \<Rightarrow> int" where
  "recordNum fr sel = (if currentIndex fr sel \<ge> 0 then currentIndex fr sel + 1 else 0)"

definition totalNum :: "Record list \<Rightarrow> int" where
  "totalNum fr = int (length fr)"

text \<open>The \<^verbatim>\<open>disabled\<close> attributes and the \<^verbatim>\<open>onClick\<close> handlers of the two buttons.\<close>

definition previousDisabled :: "Record list \<Rightarrow> Record \<Rightarrow> bool" where
  "previousDisabled fr sel = (\<not> hasPrev fr sel)"

definition nextDisabled :: "Record list \<Rightarrow> Record \<Rightarrow> bool" where
  "nextDisabled fr sel = (\<not> hasNext fr sel)"

definition onClickPrevious :: "AppState \<Rightarrow> AppState" where
  "onClickPrevious st =
     (case selectedRecord st of
        None \<Rightarrow> st
      | Some sel \<Rightarrow>
          (let fr = filteredRecords (records st) (searchQuery st) (statusFilter st)
           in if hasPrev fr sel
              then st\<lparr>selectedRecord := at_index fr (currentIndex fr sel - 1)\<rparr>
              else st))"

definition onClickNext :: "AppState \<Rightarrow> AppState" where
  "onClickNext st =
     (case selectedRecord st of
        None \<Rightarrow> st
      | Some sel \<Rightarrow>
          (let fr = filteredRecords (records st) (searchQuery st) (statusFilter st)
           in if hasNext fr sel
              then st\<lparr>selectedRecord := at_index fr (currentIndex fr sel + 1)\<rparr>
              else st))"

section \<open>Example data\<close>

text \<open>The record of the specification's first scenario, and a second, inactive one.\<close>

definition apple :: Record where
  "apple = \<lparr>name = ''Apple'', singular = ''apple'', plural = ''apples'',
     status = ''Active'', createdAt = 1000, updatedAt = 1000, rid = ''a1''\<rparr>"

definition pear :: Record where
  "pear = \<lparr>name = ''Pear'', singular = ''pear'', plural = ''pears'',
     status = ''Inactive'', createdAt = 900, updatedAt = 950, rid = ''p1''\<rparr>"

definition initial_state :: AppState where
  "initial_state =
     \<lparr>records = [], searchQuery = [], statusFilter = ''All'', showModal = False,
      editingRecord = None, selectedRecord = None,
      formData = \<lparr>name = [], singular = [], plural = [], status = ''Active''\<rparr>\<rparr>"

text \<open>The form opened on \<^const>\<open>apple\<close>, with the plural retyped.\<close>

definition editing_apple :: AppState where
  "editing_apple =
     \<lparr>records = [apple, pear], searchQuery = [], statusFilter = ''All'', showModal = True,
      editingRecord = Some apple, selectedRecord = None,
      formData = \<lparr>name = ''Apple'', singular = ''apple'', plural = ''Apples'',
        status = ''Active''\<rparr>\<rparr>"

text \<open>The form in create mode, filled in for a new record, and the form with a blank name.\<close>

definition creating_fig :: AppState where
  "creating_fig =
     \<lparr>records = [apple, pear], searchQuery = [], statusFilter = ''All'', showModal = True,
      editingRecord = None, selectedRecord = None,
      formData = \<lparr>name = ''Fig'', singular = ''fig'', plural = ''figs'',
        status = ''Active''\<rparr>\<rparr>"

definition blank_name :: AppState where
  "blank_name =
     \<lparr>records = [apple, pear], searchQuery = [], statusFilter = ''All'', showModal = True,
      editingRecord = Some pear, selectedRecord = None,
      formData = \<lparr>name = ''  '', singular = ''pear'', plural = ''pears'',
        status = ''Inactive''\<rparr>\<rparr>"

text \<open>The details modal open on a record, with a search text typed.\<close>

definition viewing :: "Record \<Rightarrow> string \<Rightarrow> AppState" where
  "viewing sel q =
     \<lparr>records = [apple, pear], searchQuery = q, statusFilter = ''All'', showModal = False,
      editingRecord = None, selectedRecord = Some sel,
      formData = \<lparr>name = [], singular = [], plural = [], status = ''Active''\<rparr>\<rparr>"

definition accepting :: Backend where
  "accepting w = True"

definition rejecting :: Backend where
  "rejecting w = False"

definition fixed_clock :: "Date \<Rightarrow> Clock" where
  "fixed_clock t k = t"

text \<open>
  Documents of the collection: a full one, one with only a name, one with no name, and
  one whose status is neither of the two that the form writes.
\<close>

definition full_doc :: QueryDocumentSnapshot where
  "full_doc =
     \<lparr>doc_id = ''d1'',
      doc_data = \<lparr>d_name = Some ''Plum'', d_singular = Some ''plum'', d_plural = Some ''plums'',
        d_status = Some ''Inactive'', d_createdAt = Some 100, d_updatedAt = Some 200\<rparr>\<rparr>"

definition bare_doc :: QueryDocumentSnapshot where
  "bare_doc =
     \<lparr>doc_id = ''d2'',
      doc_data = \<lparr>d_name = Some ''Kiwi'', d_singular = None, d_plural = None,
        d_status = None, d_createdAt = None, d_updatedAt = None\<rparr>\<rparr>"

definition nameless_doc :: QueryDocumentSnapshot where
  "nameless_doc =
     \<lparr>doc_id = ''d3'',
      doc_data = \<lparr>d_name = None, d_singular = Some ''fig'', d_plural = Some ''figs'',
        d_status = Some ''Active'', d_createdAt = Some 100, d_updatedAt = Some 100\<rparr>\<rparr>"

definition archived_doc :: QueryDocumentSnapshot where
  "archived_doc =
     \<lparr>doc_id = ''d4'',
      doc_data = \<lparr>d_name = Some ''Lime'', d_singular = Some ''lime'', d_plural = Some ''limes'',
        d_status = Some ''Archived'', d_createdAt = Some 100, d_updatedAt = Some 100\<rparr>\<rparr>"

section \<open>Facts about strings\<close>

lemma str_includes_sublist: "str_includes s needle \<longleftrightarrow> sublist needle s"
  by (induction s) (simp_all add: sublist_Cons_right)

lemma str_includes_iff:
  "str_includes s needle \<longleftrightarrow> (\<exists>pre post. s = pre @ needle @ post)"
  by (simp add: str_includes_sublist sublist_def)

lemma trim_Nil: "trim [] = []"
  by (simp add: trim_def)

text \<open>Trimming cuts a string out of the middle of the text it is given.\<close>

lemma trim_decomp: "\<exists>a b. q = a @ trim q @ b"
proof -
  let ?x = "dropWhile isWhiteSpace q"
  have "q = takeWhile isWhiteSpace q @ ?x"
    by simp
  moreover have "rev ?x = takeWhile isWhiteSpace (rev ?x) @ dropWhile isWhiteSpace (rev ?x)"
    by simp
  then have "?x = trim q @ rev (takeWhile isWhiteSpace (rev ?x))"
    unfolding trim_def by (metis rev_append rev_rev_ident)
  ultimately have "q = takeWhile isWhiteSpace q @ trim q @ rev (takeWhile isWhiteSpace (rev ?x))"
    by simp
  then show ?thesis by blast
qed

lemma str_includes_trim:
  assumes "str_includes s (toLowerCase q)"
  shows "str_includes s (toLowerCase (trim q))"
proof -
  from assms obtain pre post where s: "s = pre @ toLowerCase q @ post"
    by (auto simp: str_includes_iff)
  obtain a b where q: "q = a @ trim q @ b"
    using trim_decomp by blast
  have "toLowerCase q = toLowerCase a @ toLowerCase (trim q) @ toLowerCase b"
    by (subst q) (simp add: toLowerCase_def)
  with s have "s = (pre @ toLowerCase a) @ toLowerCase (trim q) @ (toLowerCase b @ post)"
    by simp
  then show ?thesis
    unfolding str_includes_iff by blast
qed

section \<open>The filter\<close>

lemma matchesSearch_trim: "matchesSearch q r \<Longrightarrow> matchesSearch (trim q) r"
  unfolding matchesSearch_def truthy_def
  by (cases "trim q = []") (auto simp: trim_Nil intro: str_includes_trim)

lemma filteredRecords_refine:
  "filteredRecords L q s = filter (matchesSearch q) (filteredRecords L (trim q) s)"
  unfolding filteredRecords_def filter_filter
  by (rule filter_cong) (auto dest: matchesSearch_trim)

text \<open>
  Claim C1. For every record list \<open>L\<close>, search text \<open>q\<close> and status filter \<open>s\<close>, a record
  is in the filtered list if and only if it is in \<open>L\<close>, and \<open>q\<close> is empty or white space only
  or the lower-cased \<open>q\<close> is a substring of the lower-cased name, singular or plural of the
  record, and \<open>s\<close> is \<^verbatim>\<open>All\<close> or is the status of the record.
\<close>

theorem filteredRecords_contains:
  "r \<in> set (filteredRecords L q s) \<longleftrightarrow>
     r \<in> set L \<and>
     (trim q = [] \<or>
      (\<exists>pre post. toLowerCase (name r) = pre @ toLowerCase q @ post) \<or>
      (\<exists>pre post. toLowerCase (singular r) = pre @ toLowerCase q @ post) \<or>
      (\<exists>pre post. toLowerCase (plural r) = pre @ toLowerCase q @ post)) \<and>
     (s = ''All'' \<or> s = status r)"
  unfolding filteredRecords_def matchesSearch_def matchesStatus_def truthy_def str_includes_iff
  by auto

theorem filteredRecords_contains_witness:
  "apple \<in> set (filteredRecords [apple, pear] ''APP'' ''All'') \<and>
   pear \<notin> set (filteredRecords [apple, pear] ''APP'' ''All'') \<and>
   apple \<notin> set (filteredRecords [apple, pear] '' '' ''Inactive'') \<and>
   pear \<in> set (filteredRecords [apple, pear] '' '' ''Inactive'')"
proof -
  have a: "toLowerCase (name apple) = [] @ toLowerCase ''APP'' @ ''le''"
    by code_simp
  have t: "trim ''APP'' \<noteq> []" "trim '' '' = []"
    by code_simp+
  have p: "\<not> sublist (toLowerCase ''APP'') (toLowerCase (name pear))"
    "\<not> sublist (toLowerCase ''APP'') (toLowerCase (singular pear))"
    "\<not> sublist (toLowerCase ''APP'') (toLowerCase (plural pear))"
    by code_simp+
  have s: "status apple = ''Active''" "status pear = ''Inactive''"
    by (simp_all add: apple_def pear_def)
  have ex: "\<exists>pre post. toLowerCase (name apple) = pre @ toLowerCase ''APP'' @ post"
    by (rule exI [of _ "[]"], rule exI [of _ "''le''"]) (rule a)
  have 1: "apple \<in> set (filteredRecords [apple, pear] ''APP'' ''All'')"
    unfolding filteredRecords_contains using ex by simp
  have 2: "pear \<notin> set (filteredRecords [apple, pear] ''APP'' ''All'')"
    unfolding filteredRecords_contains using p t by (simp add: sublist_def)
  have 3: "apple \<notin> set (filteredRecords [apple, pear] '' '' ''Inactive'')"
    unfolding filteredRecords_contains using s by simp
  have 4: "pear \<in> set (filteredRecords [apple, pear] '' '' ''Inactive'')"
    unfolding filteredRecords_contains using s t by simp
  from 1 2 3 4 show ?thesis by blast
qed

text \<open>
  Claim C8. Filtering is idempotent, and the filtered list keeps the records in the order
  of the list it was given: it is that list with records left out.
\<close>

theorem filteredRecords_idempotent_stable:
  "filteredRecords (filteredRecords L q s) q s = filteredRecords L q s \<and>
   subseq (filteredRecords L q s) L"
  by (simp add: filteredRecords_def)

theorem filteredRecords_idempotent_stable_witness:
  "filteredRecords (filteredRecords [pear, apple, pear] ''pea'' ''Inactive'') ''pea'' ''Inactive''
     = filteredRecords [pear, apple, pear] ''pea'' ''Inactive'' \<and>
   subseq (filteredRecords [pear, apple, pear] ''pea'' ''Inactive'') [pear, apple, pear]"
  by (rule filteredRecords_idempotent_stable)

text \<open>
  Claim C9 says that the search text is trimmed before it is matched, so that a text
  and the trimmed text give the same list. The code trims the text only to see whether
  there is anything to search for, and matches the text as typed: with a space after
  \<^verbatim>\<open>app\<close> the record \<^verbatim>\<open>Apple\<close> is filtered out, while \<^verbatim>\<open>app\<close> keeps it.
\<close>

theorem untrimmed_query_counterexample:
  "filteredRecords [apple] ''app '' ''All'' \<noteq> filteredRecords [apple] (trim ''app '') ''All''"
  by code_simp

text \<open>
  Claim C9, amended. When the search text is empty or white space only, the filtered list
  is the same as for the trimmed text: the records that pass the status filter. When it is
  not, the lower-cased text as typed, untrimmed, is matched as a substring against the
  lower-cased name, singular and plural. In both cases the filtered list is the filtered
  list of the trimmed text with records left out.
\<close>

theorem filteredRecords_query_trimming:
  "(trim q = [] \<longrightarrow>
      filteredRecords L q s = filteredRecords L (trim q) s \<and>
      filteredRecords L q s = filter (matchesStatus s) L) \<and>
   (trim q \<noteq> [] \<longrightarrow>
      filteredRecords L q s =
        filter (\<lambda>r. (str_includes (toLowerCase (name r)) (toLowerCase q) \<or>
                     str_includes (toLowerCase (singular r)) (toLowerCase q) \<or>
                     str_includes (toLowerCase (plural r)) (toLowerCase q)) \<and>
                    matchesStatus s r) L) \<and>
   subseq (filteredRecords L q s) (filteredRecords L (trim q) s)"
proof (intro conjI impI)
  assume e: "trim q = []"
  then show "filteredRecords L q s = filteredRecords L (trim q) s"
    by (simp add: filteredRecords_def matchesSearch_def truthy_def trim_Nil)
  from e show "filteredRecords L q s = filter (matchesStatus s) L"
    by (simp add: filteredRecords_def matchesSearch_def truthy_def)
next
  assume "trim q \<noteq> []"
  then show "filteredRecords L q s =
        filter (\<lambda>r. (str_includes (toLowerCase (name r)) (toLowerCase q) \<or>
                     str_includes (toLowerCase (singular r)) (toLowerCase q) \<or>
                     str_includes (toLowerCase (plural r)) (toLowerCase q)) \<and>
                    matchesStatus s r) L"
    by (simp add: filteredRecords_def matchesSearch_def truthy_def)
next
  show "subseq (filteredRecords L q s) (filteredRecords L (trim q) s)"
    by (subst filteredRecords_refine) simp
qed

theorem filteredRecords_query_trimming_witness:
  "trim ''  '' = [] \<and> trim ''app '' \<noteq> [] \<and>
   filteredRecords [apple, pear] ''  '' ''All'' = [apple, pear] \<and>
   filteredRecords [apple, pear] ''app '' ''All'' = [] \<and>
   subseq (filteredRecords [apple, pear] ''app '' ''All'')
     (filteredRecords [apple, pear] (trim ''app '') ''All'')"
proof -
  have t: "trim ''  '' = []" "trim ''app '' \<noteq> []"
    by code_simp+
  have st: "filter (matchesStatus ''All'') [apple, pear] = [apple, pear]"
    by (simp add: matchesStatus_def)
  have n: "filter (\<lambda>r. (str_includes (toLowerCase (name r)) (toLowerCase ''app '') \<or>
                     str_includes (toLowerCase (singular r)) (toLowerCase ''app '') \<or>
                     str_includes (toLowerCase (plural r)) (toLowerCase ''app '')) \<and>
                    matchesStatus ''All'' r) [apple, pear] = []"
    by code_simp
  note blank = filteredRecords_query_trimming [of "''  ''" "[apple, pear]" "''All''"]
  note typed = filteredRecords_query_trimming [of "''app ''" "[apple, pear]" "''All''"]
  have 1: "filteredRecords [apple, pear] ''  '' ''All'' = [apple, pear]"
    using blank [THEN conjunct1, rule_format, OF t(1), THEN conjunct2] st by (rule trans)
  have 2: "filteredRecords [apple, pear] ''app '' ''All'' = []"
    using typed [THEN conjunct2, THEN conjunct1, rule_format, OF t(2)] n by (rule trans)
  have 3: "subseq (filteredRecords [apple, pear] ''app '' ''All'')
     (filteredRecords [apple, pear] (trim ''app '') ''All'')"
    by (rule typed [THEN conjunct2, THEN conjunct2])
  from t 1 2 3 show ?thesis by (intro conjI)
qed

section \<open>The form\<close>

text \<open>
  Claim C2. When the name of the form is empty or white space only after trimming,
  submitting sends no write to the backend, neither a create nor an update: the one
  effect is the error toast, and the state stays as it was.
\<close>

theorem empty_name_aborts_submit:
  assumes "trim (name (formData st)) = []"
  shows "handleSubmit backend now st = (st, [ToastError ''Name is required''])"
  using assms by (simp add: handleSubmit_def validateForm_def truthy_def)

theorem empty_name_aborts_submit_witness:
  "trim (name (formData blank_name)) = [] \<and>
   handleSubmit accepting 2000 blank_name = (blank_name, [ToastError ''Name is required''])"
proof -
  have h: "trim (name (formData blank_name)) = []"
    by code_simp
  from h empty_name_aborts_submit [OF h] show ?thesis by (rule conjI)
qed

lemma handleSubmit_edit:
  assumes "truthy (trim (name (formData st)))" and "editingRecord st = Some er"
  shows "handleSubmit backend now st =
    (if backend (UpdateDoc (rid er) (recordData now st))
     then (resetForm (st\<lparr>showModal := False\<rparr>),
           [Write (UpdateDoc (rid er) (recordData now st)),
            ToastSuccess ''Record updated successfully''])
     else (st, [Write (UpdateDoc (rid er) (recordData now st)),
                ConsoleError ''Error saving record:'',
                ToastError ''Error saving record. Please try again.'']))"
  using assms by (simp add: handleSubmit_def validateForm_def Let_def)

lemma handleSubmit_create:
  assumes "truthy (trim (name (formData st)))" and "editingRecord st = None"
  shows "handleSubmit backend now st =
    (if backend (AddDoc ((recordData now st)\<lparr>createdAt := now\<rparr>))
     then (resetForm (st\<lparr>showModal := False\<rparr>),
           [Write (AddDoc ((recordData now st)\<lparr>createdAt := now\<rparr>)),
            ToastSuccess ''Record created successfully''])
     else (st, [Write (AddDoc ((recordData now st)\<lparr>createdAt := now\<rparr>)),
                ConsoleError ''Error saving record:'',
                ToastError ''Error saving record. Please try again.'']))"
  using assms by (simp add: handleSubmit_def validateForm_def Let_def)

text \<open>
  Claim C3 says that the \<^verbatim>\<open>updatedAt\<close> written by an edit is strictly greater than the
  one the record had. The code writes the reading of the client's clock and compares it
  with nothing: a record that another client stamped 1000, edited when this client's
  clock reads 999, is written with \<^verbatim>\<open>updatedAt\<close> 999.
\<close>

theorem edit_submit_counterexample:
  "handleSubmit accepting 999 editing_apple =
     (resetForm (editing_apple\<lparr>showModal := False\<rparr>),
      [Write (UpdateDoc ''a1'' (recordData 999 editing_apple)),
       ToastSuccess ''Record updated successfully'']) \<and>
   updatedAt apple = 1000 \<and>
   updatedAt (recordData 999 editing_apple) = 999 \<and>
   \<not> updatedAt apple < updatedAt (recordData 999 editing_apple)"
proof -
  have t: "truthy (trim (name (formData editing_apple)))"
    by code_simp
  have e: "editingRecord editing_apple = Some apple"
    by (simp add: editing_apple_def)
  have "handleSubmit accepting 999 editing_apple =
     (resetForm (editing_apple\<lparr>showModal := False\<rparr>),
      [Write (UpdateDoc (rid apple) (recordData 999 editing_apple)),
       ToastSuccess ''Record updated successfully''])"
    by (simp add: handleSubmit_edit [OF t e] accepting_def)
  moreover have "rid apple = ''a1''" "updatedAt apple = 1000"
    by (simp_all add: apple_def)
  moreover have "updatedAt (recordData 999 editing_apple) = 999"
    by (simp add: recordData_def)
  ultimately show ?thesis by simp
qed

text \<open>
  Claim C3, amended. An edit that passes validation and that the backend accepts writes
  the \<^verbatim>\<open>createdAt\<close> of the record being edited and the current reading of the clock as
  \<^verbatim>\<open>updatedAt\<close>; the written \<^verbatim>\<open>updatedAt\<close> is strictly greater than the one the record
  had exactly when the clock reads later than it.
\<close>

theorem edit_submit_timestamps:
  assumes "truthy (trim (name (formData st)))"
    and "editingRecord st = Some er"
    and "backend (UpdateDoc (rid er) (recordData now st))"
  shows "handleSubmit backend now st =
     (resetForm (st\<lparr>showModal := False\<rparr>),
      [Write (UpdateDoc (rid er) (recordData now st)),
       ToastSuccess ''Record updated successfully'']) \<and>
    createdAt (recordData now st) = createdAt er \<and>
    updatedAt (recordData now st) = now \<and>
    (updatedAt er < updatedAt (recordData now st) \<longleftrightarrow> updatedAt er < now)"
proof -
  have "createdAt (recordData now st) = createdAt er" "updatedAt (recordData now st) = now"
    using assms(2) by (simp_all add: recordData_def)
  with handleSubmit_edit [OF assms(1,2)] assms(3) show ?thesis
    by simp
qed

theorem edit_submit_timestamps_witness:
  "truthy (trim (name (formData editing_apple))) \<and>
   editingRecord editing_apple = Some apple \<and>
   accepting (UpdateDoc (rid apple) (recordData 2000 editing_apple)) \<and>
   handleSubmit accepting 2000 editing_apple =
     (resetForm (editing_apple\<lparr>showModal := False\<rparr>),
      [Write (UpdateDoc (rid apple) (recordData 2000 editing_apple)),
       ToastSuccess ''Record updated successfully'']) \<and>
   createdAt (recordData 2000 editing_apple) = createdAt apple \<and>
   updatedAt (recordData 2000 editing_apple) = 2000 \<and>
   updatedAt apple < updatedAt (recordData 2000 editing_apple)"
proof -
  have t: "truthy (trim (name (formData editing_apple)))"
    by code_simp
  have e: "editingRecord editing_apple = Some apple"
    by (simp add: editing_apple_def)
  have b: "accepting (UpdateDoc (rid apple) (recordData 2000 editing_apple))"
    by (simp add: accepting_def)
  have l: "updatedAt apple < 2000"
    by (simp add: apple_def)
  note inst = edit_submit_timestamps [where backend = accepting and now = 2000, OF t e b]
  from inst l have "updatedAt apple < updatedAt (recordData 2000 editing_apple)"
    by simp
  with t e b inst show ?thesis by simp
qed

text \<open>
  Claim C5. A submission in create mode with a name that is not empty after trimming,
  accepted by the backend, writes a record whose \<^verbatim>\<open>createdAt\<close> and \<^verbatim>\<open>updatedAt\<close> are
  both the one reading of the clock.
\<close>

theorem create_submit_timestamps:
  assumes "truthy (trim (name (formData st)))"
    and "editingRecord st = None"
    and "backend (AddDoc ((recordData now st)\<lparr>createdAt := now\<rparr>))"
  shows "handleSubmit backend now st =
     (resetForm (st\<lparr>showModal := False\<rparr>),
      [Write (AddDoc ((recordData now st)\<lparr>createdAt := now\<rparr>)),
       ToastSuccess ''Record created successfully'']) \<and>
    createdAt ((recordData now st)\<lparr>createdAt := now\<rparr>) = now \<and>
    updatedAt ((recordData now st)\<lparr>createdAt := now\<rparr>) = now \<and>
    createdAt ((recordData now st)\<lparr>createdAt := now\<rparr>) =
      updatedAt ((recordData now st)\<lparr>createdAt := now\<rparr>)"
  using handleSubmit_create [OF assms(1,2)] assms(3) by (simp add: recordData_def)


theorem create_submit_timestamps_witness:
  "truthy (trim (name (formData creating_fig))) \<and>
   editingRecord creating_fig = None \<and>
   accepting (AddDoc ((recordData 2000 creating_fig)\<lparr>createdAt := 2000\<rparr>)) \<and>
   handleSubmit accepting 2000 creating_fig =
     (resetForm (creating_fig\<lparr>showModal := False\<rparr>),
      [Write (AddDoc ((recordData 2000 creating_fig)\<lparr>createdAt := 2000\<rparr>)),
       ToastSuccess ''Record created successfully'']) \<and>
   createdAt ((recordData 2000 creating_fig)\<lparr>createdAt := 2000\<rparr>) = 2000 \<and>
   updatedAt ((recordData 2000 creating_fig)\<lparr>createdAt := 2000\<rparr>) = 2000"
proof -
  have t: "truthy (trim (name (formData creating_fig)))"
    by code_simp
  have e: "editingRecord creating_fig = None"
    by (simp add: creating_fig_def)
  have b: "accepting (AddDoc ((recordData 2000 creating_fig)\<lparr>createdAt := 2000\<rparr>))"
    by (simp add: accepting_def)
  from t e b create_submit_timestamps [where backend = accepting and now = 2000, OF t e b] show ?thesis by simp
qed

text \<open>
  Claim C4. When the backend rejects an update, a create or a delete, the state is left
  as it was (the record list, the open form with its field values, the record being
  edited), and the effects are the write, the console log and an error toast.
\<close>

theorem rejected_write_changes_nothing:
  "(truthy (trim (name (formData st))) \<and> editingRecord st = Some er \<and>
      \<not> backend (UpdateDoc (rid er) (recordData now st)) \<longrightarrow>
      handleSubmit backend now st =
        (st, [Write (UpdateDoc (rid er) (recordData now st)),
              ConsoleError ''Error saving record:'',
              ToastError ''Error saving record. Please try again.''])) \<and>
   (truthy (trim (name (formData st))) \<and> editingRecord st = None \<and>
      \<not> backend (AddDoc ((recordData now st)\<lparr>createdAt := now\<rparr>)) \<longrightarrow>
      handleSubmit backend now st =
        (st, [Write (AddDoc ((recordData now st)\<lparr>createdAt := now\<rparr>)),
              ConsoleError ''Error saving record:'',
              ToastError ''Error saving record. Please try again.''])) \<and>
   (\<not> backend (DeleteDoc i) \<longrightarrow>
      handleDelete backend True i st =
        (st, [Write (DeleteDoc i),
              ConsoleError ''Error deleting record:'',
              ToastError ''Error deleting record'']))"
proof (intro conjI impI)
  assume "truthy (trim (name (formData st))) \<and> editingRecord st = Some er \<and>
      \<not> backend (UpdateDoc (rid er) (recordData now st))"
  then show "handleSubmit backend now st =
        (st, [Write (UpdateDoc (rid er) (recordData now st)),
              ConsoleError ''Error saving record:'',
              ToastError ''Error saving record. Please try again.''])"
    by (simp add: handleSubmit_edit)
next
  assume "truthy (trim (name (formData st))) \<and> editingRecord st = None \<and>
      \<not> backend (AddDoc ((recordData now st)\<lparr>createdAt := now\<rparr>))"
  then show "handleSubmit backend now st =
        (st, [Write (AddDoc ((recordData now st)\<lparr>createdAt := now\<rparr>)),
              ConsoleError ''Error saving record:'',
              ToastError ''Error saving record. Please try again.''])"
    by (simp add: handleSubmit_create)
next
  assume "\<not> backend (DeleteDoc i)"
  then show "handleDelete backend True i st =
        (st, [Write (DeleteDoc i),
              ConsoleError ''Error deleting record:'',
              ToastError ''Error deleting record''])"
    by (simp add: handleDelete_def)
qed

theorem rejected_write_changes_nothing_witness:
  "handleSubmit rejecting 2000 editing_apple =
     (editing_apple, [Write (UpdateDoc (rid apple) (recordData 2000 editing_apple)),
        ConsoleError ''Error saving record:'',
        ToastError ''Error saving record. Please try again.'']) \<and>
   handleSubmit rejecting 2000 creating_fig =
     (creating_fig, [Write (AddDoc ((recordData 2000 creating_fig)\<lparr>createdAt := 2000\<rparr>)),
        ConsoleError ''Error saving record:'',
        ToastError ''Error saving record. Please try again.'']) \<and>
   handleDelete rejecting True ''p1'' editing_apple =
     (editing_apple, [Write (DeleteDoc ''p1''),
        ConsoleError ''Error deleting record:'',
        ToastError ''Error deleting record''])"
proof -
  have ta: "truthy (trim (name (formData editing_apple)))"
    and tf: "truthy (trim (name (formData creating_fig)))"
    by code_simp+
  have ea: "editingRecord editing_apple = Some apple"
    and ef: "editingRecord creating_fig = None"
    by (simp_all add: editing_apple_def creating_fig_def)
  have r: "\<not> rejecting w" for w
    by (simp add: rejecting_def)
  note upd = rejected_write_changes_nothing
    [of editing_apple apple rejecting 2000 "''p1''", THEN conjunct1, rule_format]
  note add = rejected_write_changes_nothing
    [of creating_fig apple rejecting 2000 "''p1''", THEN conjunct2, THEN conjunct1, rule_format]
  note del = rejected_write_changes_nothing
    [of editing_apple apple rejecting 2000 "''p1''", THEN conjunct2, THEN conjunct2, rule_format]
  show ?thesis
  proof (intro conjI)
    show "handleSubmit rejecting 2000 editing_apple =
     (editing_apple, [Write (UpdateDoc (rid apple) (recordData 2000 editing_apple)),
        ConsoleError ''Error saving record:'',
        ToastError ''Error saving record. Please try again.''])"
      by (rule upd) (intro conjI ta ea r)
    show "handleSubmit rejecting 2000 creating_fig =
     (creating_fig, [Write (AddDoc ((recordData 2000 creating_fig)\<lparr>createdAt := 2000\<rparr>)),
        ConsoleError ''Error saving record:'',
        ToastError ''Error saving record. Please try again.''])"
      by (rule add) (intro conjI tf ef r)
    show "handleDelete rejecting True ''p1'' editing_apple =
     (editing_apple, [Write (DeleteDoc ''p1''),
        ConsoleError ''Error deleting record:'',
        ToastError ''Error deleting record''])"
      by (rule del) (rule r)
  qed
qed

section \<open>Navigation in the details modal\<close>

lemma findIndex_from_absent:
  "(\<forall>x\<in>set xs. \<not> P x) \<Longrightarrow> findIndex_from P xs i = - 1"
  by (induction xs arbitrary: i) simp_all

lemma findIndex_from_range:
  "0 \<le> i \<Longrightarrow> findIndex_from P xs i = - 1 \<or>
     (i \<le> findIndex_from P xs i \<and> findIndex_from P xs i < i + int (length xs))"
proof (induction xs arbitrary: i)
  case Nil
  then show ?case by simp
next
  case (Cons x xs)
  from Cons.IH [of "i + 1"] Cons.prems show ?case
    by auto
qed

lemma currentIndex_range:
  "currentIndex fr sel = - 1 \<or> (0 \<le> currentIndex fr sel \<and> currentIndex fr sel < int (length fr))"
  using findIndex_from_range [of 0 "\<lambda>r. rid r = rid sel" fr]
  by (simp add: currentIndex_def findIndex_def)

lemma currentIndex_absent:
  assumes "rid sel \<notin> rid ` set fr"
  shows "currentIndex fr sel = - 1"
proof -
  from assms have "\<forall>x\<in>set fr. \<not> rid x = rid sel"
    by (metis imageI)
  then show ?thesis
    unfolding currentIndex_def findIndex_def by (rule findIndex_from_absent)
qed

lemmas nav_defs = previousDisabled_def nextDisabled_def hasPrev_def hasNext_def
  recordNum_def totalNum_def onClickPrevious_def onClickNext_def Let_def

lemma onClickPrevious_step:
  assumes "selectedRecord st = Some sel"
    and "fr = filteredRecords (records st) (searchQuery st) (statusFilter st)"
    and "hasPrev fr sel"
  shows "0 \<le> currentIndex fr sel - 1 \<and> currentIndex fr sel - 1 < int (length fr) \<and>
         onClickPrevious st = st\<lparr>selectedRecord := Some (fr ! nat (currentIndex fr sel - 1))\<rparr>"
  using assms currentIndex_range [of fr sel] by (auto simp: nav_defs at_index_def)

lemma onClickNext_step:
  assumes "selectedRecord st = Some sel"
    and "fr = filteredRecords (records st) (searchQuery st) (statusFilter st)"
    and "hasNext fr sel"
  shows "0 \<le> currentIndex fr sel + 1 \<and> currentIndex fr sel + 1 < int (length fr) \<and>
         onClickNext st = st\<lparr>selectedRecord := Some (fr ! nat (currentIndex fr sel + 1))\<rparr>"
  using assms currentIndex_range [of fr sel] by (auto simp: nav_defs at_index_def)

lemma onClickPrevious_selection:
  assumes "selectedRecord st = Some sel"
    and "fr = filteredRecords (records st) (searchQuery st) (statusFilter st)"
  shows "selectedRecord (onClickPrevious st) \<in> insert (Some sel) (Some ` set fr)"
proof (cases "hasPrev fr sel")
  case True
  from onClickPrevious_step [OF assms True]
  have "nat (currentIndex fr sel - 1) < length fr"
    and "onClickPrevious st = st\<lparr>selectedRecord := Some (fr ! nat (currentIndex fr sel - 1))\<rparr>"
    by auto
  then show ?thesis by simp
next
  case False
  with assms show ?thesis by (simp add: onClickPrevious_def)
qed

lemma onClickNext_selection:
  assumes "selectedRecord st = Some sel"
    and "fr = filteredRecords (records st) (searchQuery st) (statusFilter st)"
  shows "selectedRecord (onClickNext st) \<in> insert (Some sel) (Some ` set fr)"
proof (cases "hasNext fr sel")
  case True
  from onClickNext_step [OF assms True]
  have "nat (currentIndex fr sel + 1) < length fr"
    and "onClickNext st = st\<lparr>selectedRecord := Some (fr ! nat (currentIndex fr sel + 1))\<rparr>"
    by auto
  then show ?thesis by simp
next
  case False
  with assms show ?thesis by (simp add: onClickNext_def)
qed

lemma navigation_absent:
  assumes "selectedRecord st = Some sel"
    and "fr = filteredRecords (records st) (searchQuery st) (statusFilter st)"
    and "rid sel \<notin> rid ` set fr"
  shows "currentIndex fr sel = - 1 \<and> previousDisabled fr sel \<and> nextDisabled fr sel \<and>
         recordNum fr sel = 0 \<and> totalNum fr = int (length fr) \<and>
         onClickPrevious st = st \<and> onClickNext st = st"
proof -
  from assms(3) have "currentIndex fr sel = - 1"
    by (rule currentIndex_absent)
  with assms(1,2) show ?thesis
    by (simp add: nav_defs)
qed

text \<open>
  Claim C6. With a record selected and \<open>fr\<close> the filtered list: at index 0 the Previous
  button is disabled and its click changes nothing; at the last index the same holds for
  Next; when no record of \<open>fr\<close> has the selected identifier the index is \<open>-1\<close>, both
  buttons are disabled, the position shown is 0 of the length of \<open>fr\<close> and neither click
  changes anything. An enabled click reads \<open>fr\<close> inside its bounds, so that after a
  click the selection is the selected record or a record of \<open>fr\<close>, never undefined.
\<close>

theorem navigation_stays_in_bounds:
  assumes sel: "selectedRecord st = Some sel"
    and fr: "fr = filteredRecords (records st) (searchQuery st) (statusFilter st)"
  shows "(currentIndex fr sel = 0 \<longrightarrow> previousDisabled fr sel \<and> onClickPrevious st = st) \<and>
    (currentIndex fr sel = int (length fr) - 1 \<longrightarrow> nextDisabled fr sel \<and> onClickNext st = st) \<and>
    (rid sel \<notin> rid ` set fr \<longrightarrow>
       currentIndex fr sel = - 1 \<and> previousDisabled fr sel \<and> nextDisabled fr sel \<and>
       recordNum fr sel = 0 \<and> totalNum fr = int (length fr) \<and>
       onClickPrevious st = st \<and> onClickNext st = st) \<and>
    (hasPrev fr sel \<longrightarrow>
       0 \<le> currentIndex fr sel - 1 \<and> currentIndex fr sel - 1 < int (length fr) \<and>
       onClickPrevious st = st\<lparr>selectedRecord := Some (fr ! nat (currentIndex fr sel - 1))\<rparr>) \<and>
    (hasNext fr sel \<longrightarrow>
       0 \<le> currentIndex fr sel + 1 \<and> currentIndex fr sel + 1 < int (length fr) \<and>
       onClickNext st = st\<lparr>selectedRecord := Some (fr ! nat (currentIndex fr sel + 1))\<rparr>) \<and>
    selectedRecord (onClickPrevious st) \<in> insert (Some sel) (Some ` set fr) \<and>
    selectedRecord (onClickNext st) \<in> insert (Some sel) (Some ` set fr)"
proof -
  have first: "currentIndex fr sel = 0 \<longrightarrow> previousDisabled fr sel \<and> onClickPrevious st = st"
    using sel fr by (simp add: nav_defs)
  have last: "currentIndex fr sel = int (length fr) - 1 \<longrightarrow>
      nextDisabled fr sel \<and> onClickNext st = st"
    using sel fr by (simp add: nav_defs)
  from first last navigation_absent [OF sel fr] onClickPrevious_step [OF sel fr]
    onClickNext_step [OF sel fr] onClickPrevious_selection [OF sel fr]
    onClickNext_selection [OF sel fr]
  show ?thesis by blast
qed

theorem navigation_stays_in_bounds_witness:
  "previousDisabled [apple, pear] apple \<and>
   onClickPrevious (viewing apple []) = viewing apple [] \<and>
   onClickNext (viewing apple []) = viewing pear [] \<and>
   nextDisabled [apple, pear] pear \<and>
   onClickNext (viewing pear []) = viewing pear [] \<and>
   onClickPrevious (viewing pear []) = viewing apple [] \<and>
   currentIndex [apple] pear = - 1 \<and>
   previousDisabled [apple] pear \<and>
   nextDisabled [apple] pear \<and>
   recordNum [apple] pear = 0 \<and>
   totalNum [apple] = 1 \<and>
   onClickPrevious (viewing pear ''app'') = viewing pear ''app'' \<and>
   onClickNext (viewing pear ''app'') = viewing pear ''app''"
proof -
  have sa: "selectedRecord (viewing apple []) = Some apple"
    and sp: "selectedRecord (viewing pear []) = Some pear"
    and sq: "selectedRecord (viewing pear ''app'') = Some pear"
    by (simp_all add: viewing_def)
  have fa: "[apple, pear] = filteredRecords (records (viewing apple []))
      (searchQuery (viewing apple [])) (statusFilter (viewing apple []))"
    and fp: "[apple, pear] = filteredRecords (records (viewing pear []))
      (searchQuery (viewing pear [])) (statusFilter (viewing pear []))"
    and fq: "[apple] = filteredRecords (records (viewing pear ''app''))
      (searchQuery (viewing pear ''app'')) (statusFilter (viewing pear ''app''))"
    by code_simp+
  have ia: "currentIndex [apple, pear] apple = 0"
    and ip: "currentIndex [apple, pear] pear = int (length [apple, pear]) - 1"
    and na: "hasNext [apple, pear] apple"
    and pp: "hasPrev [apple, pear] pear"
    by code_simp+
  have iq: "rid pear \<notin> rid ` set [apple]"
    by (simp add: apple_def pear_def)
  note first = navigation_stays_in_bounds [OF sa fa]
  note last = navigation_stays_in_bounds [OF sp fp]
  note gone = navigation_stays_in_bounds [OF sq fq]
  from first ia have 1: "previousDisabled [apple, pear] apple \<and>
      onClickPrevious (viewing apple []) = viewing apple []"
    by blast
  from first na have "onClickNext (viewing apple []) =
      (viewing apple [])\<lparr>selectedRecord := Some ([apple, pear] ! nat (currentIndex [apple, pear] apple + 1))\<rparr>"
    by blast
  then have 2: "onClickNext (viewing apple []) = viewing pear []"
    by (simp add: ia viewing_def)
  from last ip have 3: "nextDisabled [apple, pear] pear \<and>
      onClickNext (viewing pear []) = viewing pear []"
    by blast
  from last pp have "onClickPrevious (viewing pear []) =
      (viewing pear [])\<lparr>selectedRecord := Some ([apple, pear] ! nat (currentIndex [apple, pear] pear - 1))\<rparr>"
    by blast
  then have 4: "onClickPrevious (viewing pear []) = viewing apple []"
    by (simp add: ip viewing_def)
  from gone iq have 5: "currentIndex [apple] pear = - 1 \<and> previousDisabled [apple] pear \<and>
      nextDisabled [apple] pear \<and> recordNum [apple] pear = 0 \<and>
      totalNum [apple] = int (length [apple]) \<and>
      onClickPrevious (viewing pear ''app'') = viewing pear ''app'' \<and>
      onClickNext (viewing pear ''app'') = viewing pear ''app''"
    by blast
  from 1 2 3 4 5 show ?thesis by simp
qed

section \<open>Decoding a snapshot\<close>

lemma or_now_cases:
  "or_now clock k None = (clock k, Suc k)" "or_now clock k (Some t) = (t, k)"
  by (simp_all add: or_now_def)

lemma decodeDoc_strings:
  "name (fst (decodeDoc clock k doc)) = or_string (d_name (doc_data doc)) []"
  "singular (fst (decodeDoc clock k doc)) = or_string (d_singular (doc_data doc)) []"
  "plural (fst (decodeDoc clock k doc)) = or_string (d_plural (doc_data doc)) []"
  "status (fst (decodeDoc clock k doc)) = or_string (d_status (doc_data doc)) ''Active''"
  "rid (fst (decodeDoc clock k doc)) = doc_id doc"
  by (simp_all add: decodeDoc_def Let_def split: prod.split)

lemma decodeDoc_dates:
  "createdAt (fst (decodeDoc clock k doc)) = fst (or_now clock k (d_createdAt (doc_data doc)))"
  "updatedAt (fst (decodeDoc clock k doc)) =
     fst (or_now clock (snd (or_now clock k (d_createdAt (doc_data doc))))
       (d_updatedAt (doc_data doc)))"
  by (simp_all add: decodeDoc_def Let_def split: prod.split)

text \<open>
  Claim C7 says that an unrecognized status decodes to \<^verbatim>\<open>Active\<close>. The fallback of
  \<^verbatim>\<open>data.status || 'Active'\<close> applies to a missing or empty status only: the stored
  status \<^verbatim>\<open>Archived\<close> is decoded as \<^verbatim>\<open>Archived\<close>.
\<close>

theorem unrecognized_status_counterexample:
  "d_status (doc_data archived_doc) = Some ''Archived'' \<and>
   status (fst (decodeDoc (fixed_clock 5000) 0 archived_doc)) = ''Archived'' \<and>
   status (fst (decodeDoc (fixed_clock 5000) 0 archived_doc)) \<noteq> ''Active''"
  by (simp add: decodeDoc_strings or_string_def truthy_def archived_doc_def)

text \<open>
  Claim C7, amended. Decoding a document gives the empty string for a missing singular
  or plural, \<^verbatim>\<open>Active\<close> for a missing or empty status, the stored status when
  it is \<^verbatim>\<open>Active\<close> or \<^verbatim>\<open>Inactive\<close>, and for a missing \<^verbatim>\<open>createdAt\<close> or \<^verbatim>\<open>updatedAt\<close>
  the reading of the clock taken at that point of the decoding. Every field of the
  decoded record has a value.
\<close>

theorem decodeDoc_defaults:
  "(d_singular (doc_data doc) = None \<longrightarrow> singular (fst (decodeDoc clock k doc)) = []) \<and>
   (d_plural (doc_data doc) = None \<longrightarrow> plural (fst (decodeDoc clock k doc)) = []) \<and>
   (d_status (doc_data doc) = None \<or> d_status (doc_data doc) = Some [] \<longrightarrow>
      status (fst (decodeDoc clock k doc)) = ''Active'') \<and>
   (d_status (doc_data doc) = Some ''Active'' \<longrightarrow>
      status (fst (decodeDoc clock k doc)) = ''Active'') \<and>
   (d_status (doc_data doc) = Some ''Inactive'' \<longrightarrow>
      status (fst (decodeDoc clock k doc)) = ''Inactive'') \<and>
   (d_createdAt (doc_data doc) = None \<longrightarrow> createdAt (fst (decodeDoc clock k doc)) = clock k) \<and>
   (d_updatedAt (doc_data doc) = None \<longrightarrow>
      updatedAt (fst (decodeDoc clock k doc)) =
        clock (if d_createdAt (doc_data doc) = None then Suc k else k))"
  by (auto simp: decodeDoc_strings decodeDoc_dates or_now_cases or_string_def truthy_def)

theorem decodeDoc_defaults_witness:
  "singular (fst (decodeDoc (fixed_clock 5000) 0 bare_doc)) = [] \<and>
   plural (fst (decodeDoc (fixed_clock 5000) 0 bare_doc)) = [] \<and>
   status (fst (decodeDoc (fixed_clock 5000) 0 bare_doc)) = ''Active'' \<and>
   createdAt (fst (decodeDoc (fixed_clock 5000) 0 bare_doc)) = 5000 \<and>
   updatedAt (fst (decodeDoc (fixed_clock 5000) 0 bare_doc)) = 5000 \<and>
   status (fst (decodeDoc (fixed_clock 5000) 0 full_doc)) = ''Inactive''"
proof -
  have b: "d_singular (doc_data bare_doc) = None" "d_plural (doc_data bare_doc) = None"
    "d_status (doc_data bare_doc) = None" "d_createdAt (doc_data bare_doc) = None"
    "d_updatedAt (doc_data bare_doc) = None"
    by (simp_all add: bare_doc_def)
  have f: "d_status (doc_data full_doc) = Some ''Inactive''"
    by (simp add: full_doc_def)
  note bare = decodeDoc_defaults [of bare_doc "fixed_clock 5000" 0]
  note full = decodeDoc_defaults [of full_doc "fixed_clock 5000" 0]
  from bare b have "singular (fst (decodeDoc (fixed_clock 5000) 0 bare_doc)) = []"
    and "plural (fst (decodeDoc (fixed_clock 5000) 0 bare_doc)) = []"
    and "status (fst (decodeDoc (fixed_clock 5000) 0 bare_doc)) = ''Active''"
    and "createdAt (fst (decodeDoc (fixed_clock 5000) 0 bare_doc)) = fixed_clock 5000 0"
    and "updatedAt (fst (decodeDoc (fixed_clock 5000) 0 bare_doc)) = fixed_clock 5000 (Suc 0)"
    by simp_all
  moreover from full f have "status (fst (decodeDoc (fixed_clock 5000) 0 full_doc)) = ''Inactive''"
    by blast
  ultimately show ?thesis
    by (simp add: fixed_clock_def)
qed

lemma decodeDoc_name:
  "name (fst (decodeDoc clock k doc)) =
     (case d_name (doc_data doc) of None \<Rightarrow> [] | Some n \<Rightarrow> n)"
  by (simp add: decodeDoc_strings or_string_def truthy_def split: option.split)

lemma recordsData_names:
  "map name (recordsData clock k snapshot) =
     map (\<lambda>doc. case d_name (doc_data doc) of None \<Rightarrow> [] | Some n \<Rightarrow> n) snapshot"
proof (induction snapshot arbitrary: k)
  case Nil
  then show ?case by simp
next
  case (Cons doc docs)
  obtain r k' where d: "decodeDoc clock k doc = (r, k')"
    by (cases "decodeDoc clock k doc")
  then have "name r = (case d_name (doc_data doc) of None \<Rightarrow> [] | Some n \<Rightarrow> n)"
    using decodeDoc_name [of clock k doc] by simp
  with d Cons.IH [of k'] show ?case by simp
qed

text \<open>
  Claim C10 says that every decoded record has a name that is not empty. The decoder
  gives the empty string to a document without a name: the second record of this
  snapshot has the empty name.
\<close>

theorem nameless_document_counterexample:
  "name (records (onSnapshot (fixed_clock 5000) [full_doc, nameless_doc] initial_state) ! 1) = []"
  by (simp add: onSnapshot_def decodeDoc_def or_now_def or_string_def truthy_def
      full_doc_def nameless_doc_def)

text \<open>
  Claim C10, amended. After a snapshot, the names of the records of the list are, in
  order, the names stored in the documents, with the empty string for a document that
  has no name. So every record of the list has a name that is not empty exactly when
  every document of the snapshot stores a name that is not empty.
\<close>

theorem onSnapshot_names:
  "map name (records (onSnapshot clock snapshot st)) =
     map (\<lambda>doc. case d_name (doc_data doc) of None \<Rightarrow> [] | Some n \<Rightarrow> n) snapshot \<and>
   ((\<forall>r \<in> set (records (onSnapshot clock snapshot st)). name r \<noteq> []) \<longleftrightarrow>
    (\<forall>doc \<in> set snapshot. \<exists>n. d_name (doc_data doc) = Some n \<and> n \<noteq> []))"
proof
  show m: "map name (records (onSnapshot clock snapshot st)) =
     map (\<lambda>doc. case d_name (doc_data doc) of None \<Rightarrow> [] | Some n \<Rightarrow> n) snapshot"
    by (simp add: onSnapshot_def recordsData_names)
  have "(\<forall>r \<in> set (records (onSnapshot clock snapshot st)). name r \<noteq> []) \<longleftrightarrow>
      [] \<notin> set (map name (records (onSnapshot clock snapshot st)))"
    unfolding set_map by (metis imageE imageI)
  also have "\<dots> \<longleftrightarrow> (\<forall>doc \<in> set snapshot. \<exists>n. d_name (doc_data doc) = Some n \<and> n \<noteq> [])"
    unfolding m by (auto split: option.splits simp: image_iff) 
  finally show "(\<forall>r \<in> set (records (onSnapshot clock snapshot st)). name r \<noteq> []) \<longleftrightarrow>
    (\<forall>doc \<in> set snapshot. \<exists>n. d_name (doc_data doc) = Some n \<and> n \<noteq> [])" .
qed

theorem onSnapshot_names_witness:
  "map name (records (onSnapshot (fixed_clock 5000) [full_doc, bare_doc] initial_state)) =
     [''Plum'', ''Kiwi''] \<and>
   map name (records (onSnapshot (fixed_clock 5000) [full_doc, nameless_doc] initial_state)) =
     [''Plum'', []]"
proof -
  have 1: "map (\<lambda>doc. case d_name (doc_data doc) of None \<Rightarrow> [] | Some n \<Rightarrow> n)
      [full_doc, bare_doc] = [''Plum'', ''Kiwi'']"
    and 2: "map (\<lambda>doc. case d_name (doc_data doc) of None \<Rightarrow> [] | Some n \<Rightarrow> n)
      [full_doc, nameless_doc] = [''Plum'', []]"
    by (simp_all add: full_doc_def bare_doc_def nameless_doc_def)
  have "map name (records (onSnapshot (fixed_clock 5000) [full_doc, bare_doc] initial_state)) =
     [''Plum'', ''Kiwi'']"
    using onSnapshot_names [THEN conjunct1] 1 by (rule trans)
  moreover
  have "map name (records (onSnapshot (fixed_clock 5000) [full_doc, nameless_doc] initial_state)) =
     [''Plum'', []]"
    using onSnapshot_names [THEN conjunct1] 2 by (rule trans)
  ultimately show ?thesis by (rule conjI)
qed

end
